theory Spec2Isabelle
  imports Complex_Main
begin

section \<open>Monthly temperature series (code/data.py)\<close>

text \<open>
  A shallow embedding of the class \<open>Series\<close> of \<^verbatim>\<open>code/data.py\<close>.

  \<^item> A monthly value is a Python float; the methods only ever compare a value with the
    sentinel \<open>MISSING\<close> by \<open>==\<close>, so a value is modelled by the real number it denotes.
  \<^item> A year and \<open>first_year\<close> are Python integers (\<open>int\<close>); \<open>not first_year\<close> is
    \<open>first_year = 0\<close>.
  \<^item> Python lists are mutable objects that can be shared. They live in a store of list
    objects, addressed by references; \<open>self.series\<close> and the class attribute
    \<open>Series.missing_year\<close> are references into it, and the list that
    \<open>get_a_year\<close> returns is a reference as well.
  \<^item> The Series object is passed to each method and returned updated.
  \<^item> The three \<^verbatim>\<open>assert\<close> statements of \<open>add_year\<close> raise Python's AssertionError; the
    model tells them apart by the assertion that failed.  A method that raises leaves the
    object as it was at the raise, so the model returns the state in that case too.
  \<^item> The \<open>data\<close> argument of \<open>add_year\<close> is only read (\<open>len\<close>, and \<open>extend\<close> copies
    its items), so it is passed as the list of its items.
  \<^item> The constructor ends with \<open>self.__dict__.update(k)\<close>, so a keyword of \<open>**k\<close> that
    names an attribute the class uses replaces or shadows it on the new object.
    \<open>Series_init\<close> is the call whose keywords (\<open>station\<close>, \<open>uid\<close>, ...) name no such
    attribute (\<open>plain_keywords\<close>); they are kept in the field \<open>extra\<close>, which no method
    reads.  \<open>Series_init_series\<close> is the call that also passes a list object under the
    keyword \<open>series\<close>.  A keyword that shadows \<open>missing_year\<close> or a method is not
    modelled.
\<close>

subsection \<open>Values and the sentinel\<close>

definition MISSING :: real where
  "MISSING = 9999"

definition invalid :: "real \<Rightarrow> bool" where
  "invalid v = (v = MISSING)"

definition valid :: "real \<Rightarrow> bool" where
  "valid v = (\<not> invalid v)"

subsection \<open>The store of list objects\<close>

type_synonym ref = nat

record heap =
  lists :: "ref \<Rightarrow> real list option"
  next_ref :: ref

text \<open>The items of the list object at a reference.\<close>

definition contents :: "heap \<Rightarrow> ref \<Rightarrow> real list" where
  "contents h r = (case lists h r of Some xs \<Rightarrow> xs | None \<Rightarrow> [])"

text \<open>Creating a list object (a list display, \<open>list(...)\<close>, a slice): a new reference.\<close>

definition new_list :: "heap \<Rightarrow> real list \<Rightarrow> ref \<times> heap" where
  "new_list h xs =
     (next_ref h, h\<lparr>lists := (lists h)(next_ref h \<mapsto> xs), next_ref := Suc (next_ref h)\<rparr>)"

text \<open>\<open>list.extend\<close>: the object at \<open>r\<close> grows in place.\<close>

definition list_extend :: "heap \<Rightarrow> ref \<Rightarrow> real list \<Rightarrow> heap" where
  "list_extend h r ys = h\<lparr>lists := (lists h)(r \<mapsto> contents h r @ ys)\<rparr>"

text \<open>
  A caller overwriting the items of a list object it holds (item assignment, \<open>del\<close>,
  \<open>append\<close>, ...): the object at \<open>r\<close> now has the items \<open>zs\<close>.
\<close>

definition mutate :: "heap \<Rightarrow> ref \<Rightarrow> real list \<Rightarrow> heap" where
  "mutate h r zs = h\<lparr>lists := (lists h)(r \<mapsto> zs)\<rparr>"

text \<open>
  Python's \<open>xs[start:stop]\<close>: a negative bound counts from the end, and both bounds are
  clipped to the list.
\<close>

definition adjust_index :: "nat \<Rightarrow> int \<Rightarrow> nat" where
  "adjust_index n i =
     (if i < 0 then (if i + int n < 0 then 0 else nat (i + int n))
      else if int n \<le> i then n else nat i)"

definition py_slice :: "'a list \<Rightarrow> int \<Rightarrow> int \<Rightarrow> 'a list" where
  "py_slice xs start stop =
     (let a = adjust_index (length xs) start;
          b = adjust_index (length xs) stop
      in take (b - a) (drop a xs))"

subsection \<open>The class Series\<close>

record Series =
  first_year :: int
  series :: ref
  extra :: "string \<Rightarrow> string option"

text \<open>
  The class attribute \<open>missing_year = [MISSING]*12\<close>: one list object, made when the
  class body runs, shared by all instances.
\<close>

definition missing_year :: ref where
  "missing_year = 0"

definition class_body :: heap where
  "class_body = \<lparr>lists = Map.empty(missing_year \<mapsto> replicate 12 MISSING), next_ref = 1\<rparr>"

text \<open>
  \<open>__init__\<close>, called with keywords that name no attribute the class uses: the new
  object has an empty list of its own.
\<close>

definition Series_init :: "heap \<Rightarrow> int \<Rightarrow> (string \<Rightarrow> string option) \<Rightarrow> Series \<times> heap" where
  "Series_init h fy k =
     (let (r, h') = new_list h []
      in (\<lparr>first_year = fy, series = r, extra = k\<rparr>, h'))"

text \<open>
  \<open>__init__\<close>, called with the list object \<open>r\<close> under the keyword \<open>series\<close> (and the
  other keywords \<open>k\<close>): \<open>self.series = []\<close> creates the empty list, then
  \<open>self.__dict__.update(k)\<close> makes \<open>self.series\<close> the caller's list.
\<close>

definition Series_init_series ::
  "heap \<Rightarrow> int \<Rightarrow> ref \<Rightarrow> (string \<Rightarrow> string option) \<Rightarrow> Series \<times> heap" where
  "Series_init_series h fy r k =
     (let (r0, h') = new_list h [];
          self = \<lparr>first_year = fy, series = r0, extra = k\<rparr>
      in (self\<lparr>series := r\<rparr>, h'))"

text \<open>\<open>__len__\<close>\<close>

definition Series_len :: "heap \<Rightarrow> Series \<Rightarrow> int" where
  "Series_len h self = int (length (contents h (series self)))"

definition last_year :: "heap \<Rightarrow> Series \<Rightarrow> int" where
  "last_year h self = first_year self + int (length (contents h (series self))) div 12 - 1"

definition good_count :: "heap \<Rightarrow> Series \<Rightarrow> int" where
  "good_count h self =
     (let bad_count = int (count_list (contents h (series self)) MISSING)
      in int (length (contents h (series self))) - bad_count)"

definition has_data_for_year :: "heap \<Rightarrow> Series \<Rightarrow> int \<Rightarrow> bool" where
  "has_data_for_year h self year = (first_year self \<le> year \<and> year \<le> last_year h self)"

text \<open>\<open>get_a_year\<close> returns a list object; both branches create one.\<close>

definition get_a_year :: "heap \<Rightarrow> Series \<Rightarrow> int \<Rightarrow> ref \<times> heap" where
  "get_a_year h self year =
     (if has_data_for_year h self year then
        (let start = (year - first_year self) * 12;
             stop = start + 12
         in new_list h (py_slice (contents h (series self)) start stop))
      else new_list h (contents h missing_year))"

text \<open>The items of the list a call returned.\<close>

definition returned :: "ref \<times> heap \<Rightarrow> real list" where
  "returned res = contents (snd res) (fst res)"

datatype error =
    InvalidArgument     \<comment> \<open>\<^verbatim>\<open>assert len(data) == 12\<close>\<close>
  | InternalInvariant   \<comment> \<open>\<^verbatim>\<open>assert len(self) % 12 == 0\<close>\<close>
  | SequenceViolation   \<comment> \<open>\<^verbatim>\<open>assert year == self.last_year + 1\<close>\<close>

text \<open>
  \<open>add_year\<close>: the outcome (\<open>None\<close> for a normal return, the error otherwise), and the
  store and the object as the call leaves them.
\<close>

definition add_year :: "heap \<Rightarrow> Series \<Rightarrow> int \<Rightarrow> real list \<Rightarrow> error option \<times> heap \<times> Series" where
  "add_year h self year data =
     (if length data \<noteq> 12 then (Some InvalidArgument, h, self)
      else
        (let (h1, self1) =
               (if first_year self = 0 then (h, self\<lparr>first_year := year\<rparr>)
                else
                  (let gap = year - last_year h self - 1
                   in if gap > 0
                      then (list_extend h (series self) (replicate (nat (gap * 12)) MISSING),
                            self)
                      else (h, self)))
         in if Series_len h1 self1 mod 12 \<noteq> 0 then (Some InternalInvariant, h1, self1)
            else if year < first_year self1 then (None, h1, self1)
            else if year \<noteq> last_year h1 self1 + 1 then (Some SequenceViolation, h1, self1)
            else (None, list_extend h1 (series self1) data, self1)))"

subsection \<open>Well-formed states\<close>

text \<open>
  The class attribute still holds the twelve sentinels the class body put there, and its
  reference is in use.
\<close>

definition template_ok :: "heap \<Rightarrow> bool" where
  "template_ok h =
     (lists h missing_year = Some (replicate 12 MISSING) \<and> missing_year < next_ref h)"

text \<open>The list of a Series is an object of its own, created before now.\<close>

definition owns_list :: "heap \<Rightarrow> Series \<Rightarrow> bool" where
  "owns_list h self = (series self < next_ref h \<and> series self \<noteq> missing_year)"

text \<open>The class invariant: a whole number of years.\<close>

definition whole_years :: "heap \<Rightarrow> Series \<Rightarrow> bool" where
  "whole_years h self = (length (contents h (series self)) mod 12 = 0)"

text \<open>
  The first year is fixed once the Series holds data: a falsy \<open>first_year\<close> goes with an
  empty list.
\<close>

definition anchored :: "heap \<Rightarrow> Series \<Rightarrow> bool" where
  "anchored h self = (first_year self \<noteq> 0 \<or> contents h (series self) = [])"

text \<open>
  The keywords of a constructor call name none of the attributes that the readings of a
  Series go through: the list \<open>series\<close>, the class attribute \<open>missing_year\<close>, and the
  methods \<open>has_data_for_year\<close>, \<open>get_a_year\<close> and \<open>good_count\<close> (a keyword of that
  name would shadow the class's own on the new object).  The property \<open>last_year\<close> and
  \<open>__len__\<close> are looked up on the class and cannot be shadowed; \<open>first_year\<close> is a
  parameter and cannot be passed again.
\<close>

definition plain_keywords :: "(string \<Rightarrow> string option) \<Rightarrow> bool" where
  "plain_keywords k =
     (k ''series'' = None \<and> k ''missing_year'' = None \<and> k ''has_data_for_year'' = None
      \<and> k ''get_a_year'' = None \<and> k ''good_count'' = None)"

subsection \<open>Concrete runs\<close>

definition months :: "real list" where
  "months = [1, 2, 3, 4, 5, 6, 7, 8, 9, 10, 11, 12]"

text \<open>\<open>s = Series(first_year=fy)\<close>, right after the class body.\<close>

definition fresh :: "int \<Rightarrow> Series \<times> heap" where
  "fresh fy = Series_init class_body fy Map.empty"

text \<open>... followed by \<open>s.add_year(y, months)\<close> for each \<open>y\<close> of a list, in order.\<close>

fun add_years :: "heap \<Rightarrow> Series \<Rightarrow> int list \<Rightarrow> error option list \<times> heap \<times> Series" where
  "add_years h self [] = ([], h, self)"
| "add_years h self (y # ys) =
     (case add_year h self y months of
        (e, h', self') \<Rightarrow>
          (case add_years h' self' ys of (es, h'', self'') \<Rightarrow> (e # es, h'', self'')))"

definition run :: "int \<Rightarrow> int list \<Rightarrow> error option list \<times> heap \<times> Series" where
  "run fy ys = add_years (snd (fresh fy)) (fst (fresh fy)) ys"

text \<open>\<open>Series(1900)\<close> after \<open>add_year(1900, months)\<close>.\<close>

definition after_1900 :: "heap \<times> Series" where
  "after_1900 = snd (run 1900 [1900])"

text \<open>\<open>Series(0)\<close> after \<open>add_year(0, months)\<close>: data for the year 0.\<close>

definition year_zero :: "heap \<times> Series" where
  "year_zero = snd (run 0 [0])"

text \<open>\<open>Series(fy)\<close> after \<open>add_year\<close> for 1900, 1901 and 1903.\<close>

definition gap_1900 :: "heap \<times> Series" where
  "gap_1900 = snd (run 1900 [1900, 1901, 1903])"

definition gap_1880 :: "heap \<times> Series" where
  "gap_1880 = snd (run 1880 [1900, 1901, 1903])"

text \<open>
  \<open>d = [1.0]*12\<close> right after the class body, then \<open>s = Series(1900, series=d)\<close>.
\<close>

definition keyword_series :: "Series \<times> heap" where
  "keyword_series =
     Series_init_series (snd (new_list class_body (replicate 12 1))) 1900
       (fst (new_list class_body (replicate 12 1))) Map.empty"

section \<open>Properties\<close>

lemmas run_simps =
  run_def fresh_def after_1900_def year_zero_def Series_init_def new_list_def class_body_def
  add_year_def months_def Series_len_def last_year_def contents_def list_extend_def
  missing_year_def


subsection \<open>The store\<close>

lemma contents_list_extend:
  "contents (list_extend h r ys) r' = (if r' = r then contents h r @ ys else contents h r')"
  by (simp add: contents_def list_extend_def)

lemma next_ref_list_extend: "next_ref (list_extend h r ys) = next_ref h"
  by (simp add: list_extend_def)

lemma lists_list_extend_other: "r' \<noteq> r \<Longrightarrow> lists (list_extend h r ys) r' = lists h r'"
  by (simp add: list_extend_def)

lemma fst_new_list: "fst (new_list h xs) = next_ref h"
  by (simp add: new_list_def)

lemma contents_new_list:
  "contents (snd (new_list h xs)) r = (if r = next_ref h then xs else contents h r)"
  by (simp add: contents_def new_list_def)

lemma next_ref_new_list: "next_ref (snd (new_list h xs)) = Suc (next_ref h)"
  by (simp add: new_list_def)

lemma lists_new_list_other: "r \<noteq> next_ref h \<Longrightarrow> lists (snd (new_list h xs)) r = lists h r"
  by (simp add: new_list_def)

lemma returned_new_list: "returned (new_list h xs) = xs"
  by (simp add: returned_def fst_new_list contents_new_list)

lemma contents_mutate:
  "contents (mutate h r zs) r' = (if r' = r then zs else contents h r')"
  by (simp add: contents_def mutate_def)

lemma next_ref_mutate: "next_ref (mutate h r zs) = next_ref h"
  by (simp add: mutate_def)

lemma Series_len_list_extend:
  "Series_len (list_extend h (series self) ys) self = Series_len h self + int (length ys)"
  by (simp add: Series_len_def contents_list_extend)

lemma int_mod_12: "(int n mod 12 = 0) = (n mod 12 = 0)"
  by presburger

lemma add_year_bad_length:
  "length data \<noteq> 12 \<Longrightarrow> add_year h self year data = (Some InvalidArgument, h, self)"
  by (simp add: add_year_def)

lemma add_year_unset:
  assumes "length data = 12" "first_year self = 0"
  shows "add_year h self year data =
           (if length (contents h (series self)) mod 12 \<noteq> 0
            then (Some InternalInvariant, h, self\<lparr>first_year := year\<rparr>)
            else if contents h (series self) \<noteq> []
            then (Some SequenceViolation, h, self\<lparr>first_year := year\<rparr>)
            else (None, list_extend h (series self) data, self\<lparr>first_year := year\<rparr>))"
proof -
  let ?n = "length (contents h (series self))"
  have "?n mod 12 = 0 \<Longrightarrow> (int ?n div 12 = 0) = (contents h (series self) = [])"
    by auto
  then show ?thesis
    using assms by (simp add: add_year_def Series_len_def last_year_def int_mod_12)
qed

lemma add_year_before:
  assumes "length data = 12" "first_year self \<noteq> 0" "year < first_year self"
  shows "add_year h self year data =
           (if whole_years h self then (None, h, self) else (Some InternalInvariant, h, self))"
proof -
  have "\<not> 0 < year - last_year h self - 1"
    using assms(3) by (simp add: last_year_def)
  then show ?thesis
    using assms by (simp add: add_year_def Series_len_def whole_years_def int_mod_12)
qed

lemma add_year_within:
  assumes "length data = 12" "first_year self \<noteq> 0" "first_year self \<le> year"
    "year \<le> last_year h self"
  shows "add_year h self year data =
           (if whole_years h self then (Some SequenceViolation, h, self)
            else (Some InternalInvariant, h, self))"
  using assms by (simp add: add_year_def Series_len_def whole_years_def int_mod_12)

lemma add_year_next:
  assumes "length data = 12" "first_year self \<noteq> 0" "last_year h self < year"
    "whole_years h self"
  shows "add_year h self year data =
           (None,
            list_extend
              (if year = last_year h self + 1 then h
               else list_extend h (series self)
                      (replicate (nat ((year - last_year h self - 1) * 12)) MISSING))
              (series self) data,
            self)"
proof -
  have fy: "first_year self \<le> year"
    using assms(3) by (simp add: last_year_def)
  show ?thesis
  proof (cases "year = last_year h self + 1")
    case True
    then show ?thesis
      using assms fy by (simp add: add_year_def Series_len_def whole_years_def int_mod_12)
  next
    case False
    let ?gap = "year - last_year h self - 1"
    let ?h1 = "list_extend h (series self) (replicate (nat (?gap * 12)) MISSING)"
    from False assms(3) have gap: "0 < ?gap" by simp
    have len: "Series_len ?h1 self = Series_len h self + ?gap * 12"
      using gap by (simp add: Series_len_list_extend)
    have m: "Series_len h self mod 12 = 0"
      using assms(4) by (simp add: whole_years_def Series_len_def int_mod_12)
    then have m1: "Series_len ?h1 self mod 12 = 0"
      using len by presburger
    have "last_year ?h1 self = first_year self + Series_len ?h1 self div 12 - 1"
      by (simp add: last_year_def Series_len_def)
    also have "\<dots> = first_year self + (Series_len h self div 12 + ?gap) - 1"
      using len by simp
    also have "\<dots> = last_year h self + ?gap"
      by (simp add: last_year_def Series_len_def)
    finally have ly: "year = last_year ?h1 self + 1" by simp
    show ?thesis
      using assms fy gap m1 ly False
      by (simp add: add_year_def Let_def)
  qed
qed

lemma add_year_next_broken:
  assumes "length data = 12" "first_year self \<noteq> 0" "last_year h self < year"
    "\<not> whole_years h self"
  shows "fst (add_year h self year data) = Some InternalInvariant"
proof -
  let ?gap = "year - last_year h self - 1"
  let ?h1 = "list_extend h (series self) (replicate (nat (?gap * 12)) MISSING)"
  have m: "Series_len h self mod 12 \<noteq> 0"
    using assms(4) by (simp add: whole_years_def Series_len_def int_mod_12)
  show ?thesis
  proof (cases "0 < ?gap")
    case True
    then have "Series_len ?h1 self = Series_len h self + ?gap * 12"
      by (simp add: Series_len_list_extend)
    with m have "Series_len ?h1 self mod 12 \<noteq> 0"
      by presburger
    with True assms show ?thesis
      by (simp add: add_year_def Let_def)
  next
    case False
    with m assms show ?thesis
      by (simp add: add_year_def Let_def)
  qed
qed

subsection \<open>The series holds a whole number of years\<close>

text \<open>
  C1. Whenever \<open>add_year\<close> returns normally (the call that is ignored because the year
  precedes \<open>first_year\<close> included), the length of the series is a multiple of 12
  afterwards. This holds from every state, whatever the store and the object were.
\<close>

theorem add_year_whole_years:
  "add_year h self year data = (None, h', self') \<Longrightarrow> Series_len h' self' mod 12 = 0"
proof -
  assume r: "add_year h self year data = (None, h', self')"
  have len: "length data = 12"
    using r by (cases "length data = 12") (simp_all add: add_year_bad_length)
  show ?thesis
  proof (cases "first_year self = 0")
    case True
    with r len show ?thesis
      by (auto simp: add_year_unset Series_len_def contents_list_extend int_mod_12
          split: if_splits)
  next
    case False
    consider "year < first_year self" | "first_year self \<le> year \<and> year \<le> last_year h self"
      | "last_year h self < year" by linarith
    then show ?thesis
    proof cases
      case 1
      with r len False show ?thesis
        by (auto simp: add_year_before whole_years_def Series_len_def int_mod_12
            split: if_splits)
    next
      case 2
      with r len False show ?thesis
        by (auto simp: add_year_within split: if_splits)
    next
      case 3
      show ?thesis
      proof (cases "whole_years h self")
        case True
        have "Series_len h self mod 12 = 0"
          using True by (simp add: whole_years_def Series_len_def int_mod_12)
        moreover have "0 < year - last_year h self - 1 \<Longrightarrow>
          int (nat ((year - last_year h self - 1) * 12)) = (year - last_year h self - 1) * 12"
          by simp
        ultimately show ?thesis
          using r len False 3 True
          apply (simp add: add_year_next)
          apply (auto simp: Series_len_list_extend)
          done
      next
        case nw: False
        from add_year_next_broken [OF len False 3 nw] r show ?thesis by simp
      qed
    qed
  qed
qed

theorem add_year_whole_years_witness:
  "add_year (snd (fresh 1900)) (fst (fresh 1900)) 1900 months =
     (None, list_extend (snd (fresh 1900)) (series (fst (fresh 1900))) months, fst (fresh 1900))
   \<and> Series_len (list_extend (snd (fresh 1900)) (series (fst (fresh 1900))) months)
        (fst (fresh 1900)) mod 12 = 0
   \<and> add_year (snd (fresh 1900)) (fst (fresh 1900)) 1899 months =
       (None, snd (fresh 1900), fst (fresh 1900))
   \<and> Series_len (snd (fresh 1900)) (fst (fresh 1900)) mod 12 = 0"
proof -
  have added: "add_year (snd (fresh 1900)) (fst (fresh 1900)) 1900 months =
     (None, list_extend (snd (fresh 1900)) (series (fst (fresh 1900))) months, fst (fresh 1900))"
    by (simp add: run_simps)
  have ignored: "add_year (snd (fresh 1900)) (fst (fresh 1900)) 1899 months =
       (None, snd (fresh 1900), fst (fresh 1900))"
    by (simp add: run_simps)
  show ?thesis
    using added ignored add_year_whole_years [OF added] add_year_whole_years [OF ignored]
    by simp
qed

subsection \<open>Years before the first year are ignored\<close>

text \<open>
  C5. On a Series with a truthy \<open>first_year\<close> (holding a whole number of years, as every
  Series built by the constructor and \<open>add_year\<close> does), \<open>add_year(year, data)\<close> with
  twelve values and \<open>year < first_year\<close> returns normally and changes nothing: the store
  and the object are the same afterwards, hence so are \<open>first_year\<close>, the series, its
  length, \<open>last_year\<close> and \<open>good_count()\<close>.
\<close>

theorem add_year_ignored:
  assumes "whole_years h self" "first_year self \<noteq> 0" "length data = 12"
    "year < first_year self"
  shows "case add_year h self year data of
           (res, h', self') \<Rightarrow>
             res = None \<and> h' = h \<and> self' = self
             \<and> first_year self' = first_year self
             \<and> contents h' (series self') = contents h (series self)
             \<and> Series_len h' self' = Series_len h self
             \<and> last_year h' self' = last_year h self
             \<and> good_count h' self' = good_count h self"
  using assms by (simp add: add_year_before)

theorem add_year_ignored_witness:
  "whole_years (fst after_1900) (snd after_1900)
   \<and> first_year (snd after_1900) \<noteq> 0
   \<and> length months = 12
   \<and> 1899 < first_year (snd after_1900)
   \<and> add_year (fst after_1900) (snd after_1900) 1899 months =
       (None, fst after_1900, snd after_1900)"
proof -
  have w: "whole_years (fst after_1900) (snd after_1900)"
    by (simp add: whole_years_def run_simps)
  have f: "first_year (snd after_1900) \<noteq> 0"
    by (simp add: run_simps)
  have l: "length months = 12"
    by (simp add: months_def)
  have y: "1899 < first_year (snd after_1900)"
    by (simp add: run_simps)
  from add_year_ignored [OF w f l y] w f l y show ?thesis
    by (simp split: prod.splits)
qed

subsection \<open>When add\_year fails\<close>

text \<open>
  C3. Take a Series that holds a whole number of years and whose \<open>first_year\<close> is truthy
  or whose list is still empty. Then \<open>add_year(year, data)\<close> fails if and only if
  \<open>len(data) \<noteq> 12\<close> (the first assertion, InvalidArgument), or \<open>first_year\<close> is truthy and
  \<open>first_year \<le> year \<le> last_year\<close> (the last assertion, SequenceViolation); in all other
  cases it returns normally.
\<close>

theorem add_year_fails_iff:
  assumes "whole_years h self" "anchored h self"
  shows "(fst (add_year h self year data) \<noteq> None) =
           (length data \<noteq> 12
            \<or> (first_year self \<noteq> 0 \<and> first_year self \<le> year \<and> year \<le> last_year h self))
         \<and> (fst (add_year h self year data) = Some InvalidArgument) = (length data \<noteq> 12)
         \<and> (fst (add_year h self year data) = Some SequenceViolation) =
             (length data = 12
              \<and> first_year self \<noteq> 0 \<and> first_year self \<le> year \<and> year \<le> last_year h self)"
proof (cases "length data = 12")
  case False
  then show ?thesis by (simp add: add_year_bad_length)
next
  case len: True
  show ?thesis
  proof (cases "first_year self = 0")
    case True
    with assms have "contents h (series self) = []"
      by (simp add: anchored_def)
    with len True show ?thesis
      by (simp add: add_year_unset)
  next
    case False
    consider "year < first_year self" | "first_year self \<le> year \<and> year \<le> last_year h self"
      | "last_year h self < year" by linarith
    then show ?thesis
    proof cases
      case 1
      with len False assms(1) show ?thesis
        by (simp add: add_year_before)
    next
      case 2
      with len False assms(1) show ?thesis
        by (simp add: add_year_within)
    next
      case 3
      with len False assms(1) show ?thesis
        by (simp add: add_year_next)
    qed
  qed
qed

theorem add_year_fails_iff_witness:
  "whole_years (fst after_1900) (snd after_1900)
   \<and> anchored (fst after_1900) (snd after_1900)
   \<and> first_year (snd after_1900) = 1900
   \<and> last_year (fst after_1900) (snd after_1900) = 1900
   \<and> fst (add_year (fst after_1900) (snd after_1900) 1900 months) = Some SequenceViolation
   \<and> fst (add_year (fst after_1900) (snd after_1900) 1901 months) = None
   \<and> fst (add_year (fst after_1900) (snd after_1900) 1901 (tl months)) = Some InvalidArgument"
proof -
  have w: "whole_years (fst after_1900) (snd after_1900)"
    by (simp add: whole_years_def run_simps)
  have a: "anchored (fst after_1900) (snd after_1900)"
    by (simp add: anchored_def run_simps)
  have f: "first_year (snd after_1900) = 1900"
    by (simp add: run_simps)
  have l: "last_year (fst after_1900) (snd after_1900) = 1900"
    by (simp add: run_simps)
  have m: "length months = 12" "length (tl months) = 11"
    by (simp_all add: months_def)
  show ?thesis
    using add_year_fails_iff [OF w a, of 1900 months]
      add_year_fails_iff [OF w a, of 1901 months]
      add_year_fails_iff [OF w a, of 1901 "tl months"] w a f l m
    by simp
qed

text \<open>
  C3 as it was stated, for every Series, fails once data for the year 0 are stored:
  after \<open>Series(0)\<close> and \<open>add_year(0, months)\<close>, \<open>first_year\<close> is 0 and is taken as
  unset again, so \<open>add_year(1, months)\<close> fails although \<open>len(data) = 12\<close> and
  \<open>first_year\<close> is falsy.
\<close>

theorem add_year_fails_iff_counterexample:
  "fst (run 0 [0]) = [None]
   \<and> whole_years (fst year_zero) (snd year_zero)
   \<and> \<not> ((fst (add_year (fst year_zero) (snd year_zero) 1 months) \<noteq> None) =
          (length months \<noteq> 12
           \<or> (first_year (snd year_zero) \<noteq> 0 \<and> first_year (snd year_zero) \<le> 1
              \<and> 1 \<le> last_year (fst year_zero) (snd year_zero))))"
  by (simp add: whole_years_def run_simps)

subsection \<open>A failing add\_year changes nothing\<close>

text \<open>
  C4. Take a Series that holds a whole number of years and whose \<open>first_year\<close> is truthy
  or whose list is still empty. A call of \<open>add_year\<close> that fails leaves the store and
  the object unchanged; a call that returns normally either changes nothing (the ignored
  call) or appends to the series some whole years of MISSING followed by the twelve
  values of \<open>data\<close>.
\<close>

theorem add_year_atomic:
  assumes "whole_years h self" "anchored h self"
    "add_year h self year data = (res, h', self')"
  shows "(res \<noteq> None \<longrightarrow> h' = h \<and> self' = self)
         \<and> (res = None \<longrightarrow>
              (h' = h \<and> self' = self)
              \<or> (\<exists>n. contents h' (series self') =
                        contents h (series self) @ replicate (12 * n) MISSING @ data))"
proof (cases "length data = 12")
  case False
  with assms(3) show ?thesis by (simp add: add_year_bad_length)
next
  case len: True
  show ?thesis
  proof (cases "first_year self = 0")
    case True
    with assms have "contents h (series self) = []"
      by (simp add: anchored_def)
    with len True assms(3) have "res = None" "contents h' (series self') = data"
      by (auto simp: add_year_unset contents_list_extend)
    then have "contents h' (series self') =
                 contents h (series self) @ replicate (12 * 0) MISSING @ data"
      using \<open>contents h (series self) = []\<close> by simp
    with \<open>res = None\<close> show ?thesis by blast
  next
    case False
    consider "year < first_year self" | "first_year self \<le> year \<and> year \<le> last_year h self"
      | "last_year h self < year" by linarith
    then show ?thesis
    proof cases
      case 1
      with len False assms(1,3) show ?thesis
        by (simp add: add_year_before)
    next
      case 2
      with len False assms(1,3) show ?thesis
        by (simp add: add_year_within)
    next
      case 3
      let ?gap = "year - last_year h self - 1"
      from 3 have "0 \<le> ?gap" by simp
      then have n: "nat (?gap * 12) = 12 * nat ?gap"
        by (simp add: nat_mult_distrib)
      from 3 len False assms(1,3) have "res = None"
        and "contents h' (series self') =
               contents h (series self) @ replicate (12 * nat ?gap) MISSING @ data"
        by (auto simp: add_year_next contents_list_extend n)
      then show ?thesis by blast
    qed
  qed
qed

theorem add_year_atomic_witness:
  "whole_years (fst after_1900) (snd after_1900)
   \<and> anchored (fst after_1900) (snd after_1900)
   \<and> add_year (fst after_1900) (snd after_1900) 1900 months =
       (Some SequenceViolation, fst after_1900, snd after_1900)"
proof -
  have w: "whole_years (fst after_1900) (snd after_1900)"
    by (simp add: whole_years_def run_simps)
  have a: "anchored (fst after_1900) (snd after_1900)"
    by (simp add: anchored_def run_simps)
  obtain res h' self' where
    r: "add_year (fst after_1900) (snd after_1900) 1900 months = (res, h', self')"
    by (cases "add_year (fst after_1900) (snd after_1900) 1900 months") auto
  have e: "fst (add_year (fst after_1900) (snd after_1900) 1900 months)
             = Some SequenceViolation"
    by (simp add: run_simps)
  with r have "res = Some SequenceViolation" by simp
  with add_year_atomic [OF w a r] r w a show ?thesis by simp
qed

text \<open>
  C4 as it was stated, for every Series, fails in the state with data for the year 0:
  \<open>add_year(1, months)\<close> sets \<open>first_year\<close> to 1 before its last assertion fails.
\<close>

theorem add_year_atomic_counterexample:
  "fst (run 0 [0]) = [None]
   \<and> whole_years (fst year_zero) (snd year_zero)
   \<and> first_year (snd year_zero) = 0
   \<and> fst (add_year (fst year_zero) (snd year_zero) 1 months) = Some SequenceViolation
   \<and> first_year (snd (snd (add_year (fst year_zero) (snd year_zero) 1 months))) = 1"
  by (simp add: whole_years_def run_simps)

subsection \<open>Reading a year\<close>

lemma py_slice_year:
  assumes "0 \<le> start" "start + 12 \<le> int (length xs)"
  shows "py_slice xs start (start + 12) = take 12 (drop (nat start) xs)"
    and "length (py_slice xs start (start + 12)) = 12"
proof -
  have a: "adjust_index (length xs) start = nat start"
    using assms by (simp add: adjust_index_def)
  have b: "adjust_index (length xs) (start + 12) = nat start + 12"
    using assms by (auto simp: adjust_index_def nat_add_distrib)
  show "py_slice xs start (start + 12) = take 12 (drop (nat start) xs)"
    by (simp add: py_slice_def a b)
  then show "length (py_slice xs start (start + 12)) = 12"
    using assms by simp
qed

lemma has_data_in_range:
  assumes "has_data_for_year h self year"
  shows "0 \<le> (year - first_year self) * 12"
    and "(year - first_year self) * 12 + 12 \<le> int (length (contents h (series self)))"
proof -
  let ?n = "int (length (contents h (series self)))"
  from assms have lo: "first_year self \<le> year" and hi: "year - first_year self + 1 \<le> ?n div 12"
    by (simp_all add: has_data_for_year_def last_year_def)
  from lo show "0 \<le> (year - first_year self) * 12" by simp
  have "(year - first_year self + 1) * 12 \<le> (?n div 12) * 12"
    using hi by simp
  also have "\<dots> \<le> ?n"
    by presburger
  finally show "(year - first_year self) * 12 + 12 \<le> ?n"
    by (simp add: algebra_simps)
qed

lemma get_a_year_has_data:
  assumes "has_data_for_year h self year"
  shows "get_a_year h self year =
           new_list h (take 12 (drop (nat ((year - first_year self) * 12))
                                     (contents h (series self))))"
  using assms py_slice_year(1) [OF has_data_in_range [OF assms]]
  by (simp add: get_a_year_def Let_def)

lemma get_a_year_no_data:
  assumes "\<not> has_data_for_year h self year"
  shows "get_a_year h self year = new_list h (contents h missing_year)"
  using assms by (simp add: get_a_year_def)

lemma has_data_for_year_cong:
  assumes "contents h' (series self) = contents h (series self)"
  shows "has_data_for_year h' self year = has_data_for_year h self year"
  using assms by (simp add: has_data_for_year_def last_year_def)

lemma returned_get_a_year_cong:
  assumes "contents h' (series self) = contents h (series self)"
    "contents h' missing_year = contents h missing_year"
  shows "returned (get_a_year h' self year) = returned (get_a_year h self year)"
  using assms has_data_for_year_cong [OF assms(1), of year]
  by (simp add: get_a_year_def Let_def returned_new_list)

text \<open>
  C2. When \<open>has_data_for_year(year)\<close> holds, \<open>get_a_year(year)\<close> returns exactly the
  twelve values of the series at offset \<open>(year - first_year) * 12\<close> (the slice is never
  clipped), and a second call, made in the store the first call left, returns the same
  twelve values. The list of the Series is an object that exists already
  (\<open>series self < next_ref h\<close>).
\<close>

theorem get_a_year_slice:
  assumes "has_data_for_year h self year" "series self < next_ref h"
  shows "returned (get_a_year h self year) =
           take 12 (drop (nat ((year - first_year self) * 12)) (contents h (series self)))
         \<and> length (returned (get_a_year h self year)) = 12
         \<and> (\<forall>i<12. returned (get_a_year h self year) ! i =
                      contents h (series self) ! (nat ((year - first_year self) * 12) + i))
         \<and> returned (get_a_year (snd (get_a_year h self year)) self year) =
             returned (get_a_year h self year)"
proof -
  let ?start = "nat ((year - first_year self) * 12)"
  let ?xs = "contents h (series self)"
  have r: "returned (get_a_year h self year) = take 12 (drop ?start ?xs)"
    using assms(1) by (simp add: get_a_year_has_data returned_new_list)
  have len: "?start + 12 \<le> length ?xs"
    using has_data_in_range [OF assms(1)] by linarith
  then have l: "length (returned (get_a_year h self year)) = 12"
    by (simp add: r)
  have n: "\<forall>i<12. returned (get_a_year h self year) ! i = ?xs ! (?start + i)"
    using len by (simp add: r)
  have same: "contents (snd (get_a_year h self year)) (series self) = ?xs"
    using assms by (simp add: get_a_year_has_data contents_new_list)
  have has: "has_data_for_year (snd (get_a_year h self year)) self year"
    using assms(1) has_data_for_year_cong [OF same] by simp
  have again: "returned (get_a_year (snd (get_a_year h self year)) self year) =
                 take 12 (drop ?start ?xs)"
    using has by (simp add: get_a_year_has_data returned_new_list same)
  from r l n again show ?thesis by simp
qed

theorem get_a_year_slice_witness:
  "has_data_for_year (fst after_1900) (snd after_1900) 1900
   \<and> series (snd after_1900) < next_ref (fst after_1900)
   \<and> returned (get_a_year (fst after_1900) (snd after_1900) 1900) = months
   \<and> returned (get_a_year (snd (get_a_year (fst after_1900) (snd after_1900) 1900))
                  (snd after_1900) 1900) = months"
proof -
  have d: "has_data_for_year (fst after_1900) (snd after_1900) 1900"
    by (simp add: has_data_for_year_def run_simps)
  have a: "series (snd after_1900) < next_ref (fst after_1900)"
    by (simp add: run_simps)
  have "take 12 (drop (nat ((1900 - first_year (snd after_1900)) * 12))
                   (contents (fst after_1900) (series (snd after_1900)))) = months"
    by (simp add: run_simps)
  with get_a_year_slice [OF d a] d a show ?thesis by simp
qed

subsection \<open>Counting good values\<close>

lemma count_list_filter:
  "length xs = count_list xs x + length (filter (\<lambda>v. v \<noteq> x) xs)"
  by (induction xs) auto

lemma count_list_eq_filter: "count_list xs x = length (filter (\<lambda>v. v = x) xs)"
  by (induction xs) auto

text \<open>
  C9. \<open>good_count()\<close> is the number of entries of the series that are not equal to
  9999.0 (the entries that \<open>valid\<close> accepts), that is, the length of the series minus
  the number of entries equal to MISSING.
\<close>

theorem good_count_valid:
  "good_count h self = int (length (filter valid (contents h (series self))))
   \<and> good_count h self =
       Series_len h self - int (length (filter invalid (contents h (series self))))
   \<and> good_count h self = int (length (filter (\<lambda>v. v \<noteq> 9999) (contents h (series self))))"
proof -
  let ?xs = "contents h (series self)"
  have v: "valid = (\<lambda>v. v \<noteq> MISSING)"
    by (simp add: valid_def invalid_def fun_eq_iff)
  have i: "invalid = (\<lambda>v. v = MISSING)"
    by (simp add: invalid_def fun_eq_iff)
  have c: "count_list ?xs MISSING = length (filter (\<lambda>v. v = MISSING) ?xs)"
    by (rule count_list_eq_filter)
  show ?thesis
    using count_list_filter [of ?xs MISSING]
    apply (simp add: good_count_def Series_len_def v i c)
    apply (simp add: MISSING_def)
    done
qed

theorem good_count_valid_witness:
  "good_count (fst after_1900) (snd after_1900) = 12
   \<and> length (filter valid (contents (fst after_1900) (series (snd after_1900)))) = 12"
proof -
  have "good_count (fst after_1900) (snd after_1900) = 12"
    by (simp add: good_count_def MISSING_def run_simps)
  with good_count_valid [of "fst after_1900" "snd after_1900"] show ?thesis by simp
qed

subsection \<open>The first call sets the first year\<close>

text \<open>
  C6. On a Series whose \<open>first_year\<close> is falsy and whose list is empty (as the constructor
  leaves it), the first call \<open>add_year(year, data)\<close> with twelve values and \<open>year \<noteq> 0\<close>
  sets \<open>first_year\<close> to \<open>year\<close> and appends the twelve values; the call
  \<open>add_year(year + 1, data2)\<close> that follows succeeds and appends \<open>data2\<close>, with
  \<open>first_year\<close> still the year of the first call.
\<close>

theorem add_year_first_call:
  assumes "first_year self = 0" "contents h (series self) = []"
    "length data = 12" "length data2 = 12" "year \<noteq> 0"
  shows "case add_year h self year data of
           (res1, h1, self1) \<Rightarrow>
             res1 = None \<and> first_year self1 = year \<and> contents h1 (series self1) = data
             \<and> (case add_year h1 self1 (year + 1) data2 of
                  (res2, h2, self2) \<Rightarrow>
                    res2 = None \<and> first_year self2 = year
                    \<and> contents h2 (series self2) = data @ data2)"
proof -
  let ?self1 = "self\<lparr>first_year := year\<rparr>"
  let ?h1 = "list_extend h (series self) data"
  have first: "add_year h self year data = (None, ?h1, ?self1)"
    using assms by (simp add: add_year_unset)
  have c1: "contents ?h1 (series ?self1) = data"
    using assms by (simp add: contents_list_extend)
  have ly: "last_year ?h1 ?self1 = year"
    using assms by (simp add: last_year_def c1 [simplified])
  have wy: "whole_years ?h1 ?self1"
    using assms by (simp add: whole_years_def c1 [simplified])
  have second: "add_year ?h1 ?self1 (year + 1) data2 =
                  (None, list_extend ?h1 (series ?self1) data2, ?self1)"
    using assms wy ly add_year_next [of data2 ?self1 ?h1 "year + 1"] by simp
  show ?thesis
    using first second c1 by (simp add: contents_list_extend)
qed

theorem add_year_first_call_witness:
  "first_year (fst (fresh 0)) = 0
   \<and> contents (snd (fresh 0)) (series (fst (fresh 0))) = []
   \<and> length months = 12
   \<and> (1900 :: int) \<noteq> 0
   \<and> (case add_year (snd (fresh 0)) (fst (fresh 0)) 1900 months of
        (res1, h1, self1) \<Rightarrow>
          res1 = None \<and> first_year self1 = 1900 \<and> contents h1 (series self1) = months
          \<and> (case add_year h1 self1 1901 months of
               (res2, h2, self2) \<Rightarrow>
                 res2 = None \<and> first_year self2 = 1900
                 \<and> contents h2 (series self2) = months @ months))"
proof -
  have f: "first_year (fst (fresh 0)) = 0"
    by (simp add: run_simps)
  have e: "contents (snd (fresh 0)) (series (fst (fresh 0))) = []"
    by (simp add: run_simps)
  have l: "length months = 12"
    by (simp add: months_def)
  have y: "(1900 :: int) \<noteq> 0"
    by simp
  from add_year_first_call [OF f e l l y] f e l show ?thesis by simp
qed

text \<open>
  C6 as it was stated, for every year, fails when the first year added is 0: the first
  call stores the twelve values and leaves \<open>first_year = 0\<close>, which the next call reads
  as unset, so \<open>add_year(1, months)\<close> fails.
\<close>

theorem add_year_first_call_counterexample:
  "first_year (fst (fresh 0)) = 0
   \<and> length months = 12
   \<and> fst (add_year (snd (fresh 0)) (fst (fresh 0)) 0 months) = None
   \<and> fst (add_year (fst (snd (add_year (snd (fresh 0)) (fst (fresh 0)) 0 months)))
                    (snd (snd (add_year (snd (fresh 0)) (fst (fresh 0)) 0 months)))
                    (0 + 1) months) = Some SequenceViolation"
  by (simp add: run_simps)

subsection \<open>Three years with a gap\<close>

lemma Series_init_result:
  "Series_init h fy k =
     (\<lparr>first_year = fy, series = next_ref h, extra = k\<rparr>, snd (new_list h []))"
  by (simp add: Series_init_def new_list_def)

lemma count_list_replicate: "count_list (replicate n x) x = n"
  by (induction n) auto

lemma count_list_absent: "x \<notin> set xs \<Longrightarrow> count_list xs x = 0"
  by (induction xs) auto

lemma count_list_app: "count_list (xs @ ys) x = count_list xs x + count_list ys x"
  by (induction xs) auto

text \<open>
  C7. Construct a Series with \<open>first_year\<close> 1900 (or falsy), then call \<open>add_year\<close> for
  1900, 1901 and 1903, each with twelve values none of which is MISSING. All three calls
  return normally, and afterwards \<open>last_year\<close> is 1903, the series has 48 entries,
  \<open>get_a_year(1902)\<close> returns twelve copies of MISSING and \<open>good_count()\<close> is 36: the
  three years that were added.
\<close>

theorem three_years_with_gap:
  assumes "fy = 0 \<or> fy = 1900"
    "length d1 = 12" "length d2 = 12" "length d3 = 12"
    "MISSING \<notin> set d1" "MISSING \<notin> set d2" "MISSING \<notin> set d3"
  shows "case Series_init h fy k of
           (s0, h0) \<Rightarrow>
         case add_year h0 s0 1900 d1 of
           (r1, h1, s1) \<Rightarrow>
         case add_year h1 s1 1901 d2 of
           (r2, h2, s2) \<Rightarrow>
         case add_year h2 s2 1903 d3 of
           (r3, h3, s3) \<Rightarrow>
             r1 = None \<and> r2 = None \<and> r3 = None
             \<and> last_year h3 s3 = 1903
             \<and> Series_len h3 s3 = 48
             \<and> returned (get_a_year h3 s3 1902) = replicate 12 MISSING
             \<and> good_count h3 s3 = 36"
proof -
  let ?r = "next_ref h"
  let ?new = "\<lparr>first_year = fy, series = ?r, extra = k\<rparr>"
  let ?ha = "snd (new_list h [])"
  let ?obj = "\<lparr>first_year = 1900, series = ?r, extra = k\<rparr>"
  let ?hb = "list_extend ?ha ?r d1"
  let ?hc = "list_extend ?hb ?r d2"
  let ?hd = "list_extend ?hc ?r (replicate 12 MISSING)"
  let ?he = "list_extend ?hd ?r d3"
  have c0: "contents ?ha ?r = []"
    by (simp add: contents_new_list)
  have step1: "add_year ?ha ?new 1900 d1 = (None, ?hb, ?obj)"
  proof (cases "fy = 0")
    case True
    then show ?thesis
      using assms(2) c0 by (simp add: add_year_unset)
  next
    case False
    with assms(1) have fy: "fy = 1900" by simp
    have "last_year ?ha ?new = 1899"
      by (simp add: last_year_def c0 fy)
    moreover have "whole_years ?ha ?new"
      by (simp add: whole_years_def c0)
    ultimately show ?thesis
      using add_year_next [of d1 ?new ?ha 1900] assms(2) fy by simp
  qed
  have c1: "contents ?hb ?r = d1"
    by (simp add: contents_list_extend c0)
  have step2: "add_year ?hb ?obj 1901 d2 = (None, ?hc, ?obj)"
  proof -
    have "last_year ?hb ?obj = 1900"
      using assms(2) by (simp add: last_year_def c1)
    moreover have "whole_years ?hb ?obj"
      using assms(2) by (simp add: whole_years_def c1)
    ultimately show ?thesis
      using add_year_next [of d2 ?obj ?hb 1901] assms(3) by simp
  qed
  have c2: "contents ?hc ?r = d1 @ d2"
    by (simp add: contents_list_extend c0)
  have step3: "add_year ?hc ?obj 1903 d3 = (None, ?he, ?obj)"
  proof -
    have "last_year ?hc ?obj = 1901"
      using assms(2,3) by (simp add: last_year_def c2)
    moreover have "whole_years ?hc ?obj"
      using assms(2,3) by (simp add: whole_years_def c2)
    ultimately show ?thesis
      using add_year_next [of d3 ?obj ?hc 1903] assms(4) by simp
  qed
  have c3: "contents ?he ?r = d1 @ d2 @ replicate 12 MISSING @ d3"
    by (simp add: contents_list_extend c0)
  have len: "Series_len ?he ?obj = 48"
    using assms(2-4) by (simp add: Series_len_def c3)
  have ly: "last_year ?he ?obj = 1903"
    using assms(2-4) by (simp add: last_year_def c3)
  have has: "has_data_for_year ?he ?obj 1902"
    by (simp add: has_data_for_year_def ly)
  have got: "returned (get_a_year ?he ?obj 1902) = replicate 12 MISSING"
    using assms(2-4) by (simp add: get_a_year_has_data [OF has] returned_new_list c3)
  have good: "good_count ?he ?obj = 36"
    using assms(2-7)
    by (simp add: good_count_def c3 count_list_app count_list_absent count_list_replicate)
  show ?thesis
    using step1 step2 step3 len ly got good by (simp add: Series_init_result)
qed

theorem three_years_with_gap_witness:
  "((1900 :: int) = 0 \<or> (1900 :: int) = 1900)
   \<and> length months = 12
   \<and> MISSING \<notin> set months
   \<and> (case Series_init class_body 1900 Map.empty of
         (s0, h0) \<Rightarrow>
       case add_year h0 s0 1900 months of
         (r1, h1, s1) \<Rightarrow>
       case add_year h1 s1 1901 months of
         (r2, h2, s2) \<Rightarrow>
       case add_year h2 s2 1903 months of
         (r3, h3, s3) \<Rightarrow>
           r1 = None \<and> r2 = None \<and> r3 = None
           \<and> last_year h3 s3 = 1903
           \<and> Series_len h3 s3 = 48
           \<and> returned (get_a_year h3 s3 1902) = replicate 12 MISSING
           \<and> good_count h3 s3 = 36)"
proof -
  have y: "(1900 :: int) = 0 \<or> (1900 :: int) = 1900"
    by simp
  have l: "length months = 12"
    by (simp add: months_def)
  have m: "MISSING \<notin> set months"
    by (simp add: months_def MISSING_def)
  from three_years_with_gap [OF y l l l m m m, of class_body Map.empty] y l m
  show ?thesis by simp
qed

text \<open>
  C7 as it was stated fails on the count: with \<open>Series(1900)\<close> the three years added hold
  36 good values, not 24. It also depends on the first year given to the constructor:
  with \<open>Series(1880)\<close> the years 1880 to 1899 are padded and the series has 288 entries.
\<close>

theorem three_years_with_gap_counterexample:
  "fst (run 1900 [1900, 1901, 1903]) = [None, None, None]
   \<and> length months = 12
   \<and> MISSING \<notin> set months
   \<and> good_count (fst gap_1900) (snd gap_1900) = 36
   \<and> good_count (fst gap_1900) (snd gap_1900) \<noteq> 24
   \<and> fst (run 1880 [1900, 1901, 1903]) = [None, None, None]
   \<and> Series_len (fst gap_1880) (snd gap_1880) = 288
   \<and> Series_len (fst gap_1880) (snd gap_1880) \<noteq> 48"
  by (simp add: good_count_def MISSING_def gap_1900_def gap_1880_def count_list_replicate
      run_simps)

subsection \<open>What the constructor and the methods keep\<close>

text \<open>
  The hypotheses used for the claims are properties of every Series that the
  constructor built (from plain keywords) and that only the methods touched: the class body establishes
  \<open>template_ok\<close>; the constructor keeps it and establishes \<open>owns_list\<close>,
  \<open>whole_years\<close> and \<open>anchored\<close>; \<open>add_year\<close> (whatever its outcome) and
  \<open>get_a_year\<close> keep \<open>template_ok\<close>, \<open>owns_list\<close> and \<open>whole_years\<close>.
\<close>

lemma template_ok_contents: "template_ok h \<Longrightarrow> contents h missing_year = replicate 12 MISSING"
  by (simp add: template_ok_def contents_def)

lemma template_ok_class_body: "template_ok class_body"
  by (simp add: template_ok_def class_body_def missing_year_def)

lemma template_ok_new_list: "template_ok h \<Longrightarrow> template_ok (snd (new_list h xs))"
  by (auto simp: template_ok_def new_list_def)

lemma template_ok_list_extend:
  "template_ok h \<Longrightarrow> r \<noteq> missing_year \<Longrightarrow> template_ok (list_extend h r ys)"
  by (simp add: template_ok_def list_extend_def)

lemma template_ok_mutate:
  "template_ok h \<Longrightarrow> r \<noteq> missing_year \<Longrightarrow> template_ok (mutate h r zs)"
  by (simp add: template_ok_def mutate_def)

lemma Series_init_invariants:
  assumes "template_ok h" "Series_init h fy k = (self, h')"
  shows "template_ok h'" "owns_list h' self" "whole_years h' self" "anchored h' self"
proof -
  from assms(2) have s: "self = \<lparr>first_year = fy, series = next_ref h, extra = k\<rparr>"
    and h': "h' = snd (new_list h [])"
    by (simp_all add: Series_init_result)
  show "template_ok h'"
    using assms(1) by (simp add: h' template_ok_new_list)
  show "owns_list h' self"
    using assms(1) by (auto simp: owns_list_def s h' next_ref_new_list template_ok_def)
  show "whole_years h' self"
    by (simp add: whole_years_def s h' contents_new_list)
  show "anchored h' self"
    by (simp add: anchored_def s h' contents_new_list)
qed

lemma get_a_year_invariants:
  assumes "template_ok h" "owns_list h self" "get_a_year h self year = (r, h')"
  shows "template_ok h'" "owns_list h' self"
    "contents h' (series self) = contents h (series self)"
    "r \<noteq> series self" "r \<noteq> missing_year"
proof -
  obtain xs where g: "get_a_year h self year = new_list h xs"
    by (cases "has_data_for_year h self year")
      (simp_all add: get_a_year_has_data get_a_year_no_data)
  with assms(3) have "new_list h xs = (r, h')"
    by simp
  then have r: "r = next_ref h" and h': "h' = snd (new_list h xs)"
    by (auto simp: new_list_def)
  show "template_ok h'"
    using assms(1) by (simp add: h' template_ok_new_list)
  show "owns_list h' self"
    using assms(2) by (simp add: owns_list_def h' next_ref_new_list)
  show "contents h' (series self) = contents h (series self)"
    using assms(2) by (simp add: owns_list_def h' contents_new_list)
  show "r \<noteq> series self"
    using assms(2) by (simp add: owns_list_def r)
  show "r \<noteq> missing_year"
    using assms(1) by (simp add: template_ok_def r)
qed

lemma add_year_frame_proj:
  "series (snd (snd (add_year h self year data))) = series self"
  "extra (snd (snd (add_year h self year data))) = extra self"
  "next_ref (fst (snd (add_year h self year data))) = next_ref h"
  "r \<noteq> series self \<Longrightarrow> lists (fst (snd (add_year h self year data))) r = lists h r"
  by (simp_all add: add_year_def Let_def list_extend_def)

lemma add_year_frame:
  assumes "add_year h self year data = (res, h', self')"
  shows "series self' = series self" "extra self' = extra self" "next_ref h' = next_ref h"
    "r \<noteq> series self \<Longrightarrow> lists h' r = lists h r"
  using add_year_frame_proj [where h = h and self = self and year = year and data = data] assms
  by simp_all

lemma add_year_invariants:
  assumes "template_ok h" "owns_list h self" "add_year h self year data = (res, h', self')"
  shows "template_ok h'" "owns_list h' self'"
proof -
  note f = add_year_frame [OF assms(3)]
  have "lists h' missing_year = lists h missing_year"
    using assms(2) f(4) [of missing_year] by (simp add: owns_list_def)
  then show "template_ok h'"
    using assms(1) f(3) by (simp add: template_ok_def)
  show "owns_list h' self'"
    using assms(2) f(1,3) by (simp add: owns_list_def)
qed

lemma whole_years_list_extend:
  assumes "whole_years h s" "length ys mod 12 = 0" "series s' = series s"
  shows "whole_years (list_extend h (series s) ys) s'"
proof -
  have "(length (contents h (series s)) + length ys) mod 12 = 0"
    using assms(1,2) unfolding whole_years_def by presburger
  then show ?thesis
    using assms(3) by (simp add: whole_years_def contents_list_extend)
qed

lemma add_year_keeps_whole_years:
  assumes "whole_years h self" "add_year h self year data = (res, h', self')"
  shows "whole_years h' self'"
proof (cases "length data = 12")
  case False
  with assms show ?thesis by (simp add: add_year_bad_length)
next
  case len: True
  show ?thesis
  proof (cases "first_year self = 0")
    case True
    have "whole_years (list_extend h (series self) data) (self\<lparr>first_year := year\<rparr>)"
      using whole_years_list_extend [of h self data "self\<lparr>first_year := year\<rparr>"] assms(1) len
      by simp
    moreover have "whole_years h (self\<lparr>first_year := year\<rparr>)"
      using assms(1) by (simp add: whole_years_def)
    ultimately show ?thesis
      using assms(2) len True by (auto simp: add_year_unset split: if_splits)
  next
    case False
    consider "year < first_year self" | "first_year self \<le> year \<and> year \<le> last_year h self"
      | "last_year h self < year" by linarith
    then show ?thesis
    proof cases
      case 1
      with len False assms show ?thesis
        by (simp add: add_year_before)
    next
      case 2
      with len False assms show ?thesis
        by (simp add: add_year_within)
    next
      case 3
      let ?pad = "replicate (nat ((year - last_year h self - 1) * 12)) MISSING"
      from 3 have "0 \<le> year - last_year h self - 1" by simp
      then have "nat ((year - last_year h self - 1) * 12) = 12 * nat (year - last_year h self - 1)"
        by (simp add: nat_mult_distrib)
      then have p: "length ?pad mod 12 = 0"
        by simp
      have a: "whole_years (list_extend h (series self) data) self"
        using whole_years_list_extend [of h self data self] assms(1) len by simp
      have "whole_years (list_extend h (series self) ?pad) self"
        using whole_years_list_extend [of h self ?pad self] assms(1) p by simp
      then have b: "whole_years (list_extend (list_extend h (series self) ?pad) (series self) data)
                      self"
        using whole_years_list_extend [of "list_extend h (series self) ?pad" self data self] len
        by simp
      from 3 len False assms a b show ?thesis
        by (auto simp: add_year_next split: if_splits)
    qed
  qed
qed

subsection \<open>A year without data\<close>

text \<open>
  C8. When \<open>has_data_for_year(year)\<close> is false, \<open>get_a_year(year)\<close> returns a list of
  exactly twelve copies of MISSING (9999.0). The list is a new object: it is neither the
  shared \<open>missing_year\<close> of the class nor the list of the Series, so whatever the caller
  then writes into it, every later \<open>get_a_year\<close> call returns what it would have
  returned otherwise, and the shared \<open>missing_year\<close> still holds its twelve sentinels.
  The store is well formed: the class attribute is intact and the list of the Series is
  an object of its own.
\<close>

theorem get_a_year_missing_copy:
  assumes "template_ok h" "owns_list h self" "\<not> has_data_for_year h self year"
    "get_a_year h self year = (r, h')"
  shows "contents h' r = replicate 12 MISSING
         \<and> contents h' r = replicate 12 9999
         \<and> r \<noteq> missing_year \<and> r \<noteq> series self
         \<and> (\<forall>zs year'. returned (get_a_year (mutate h' r zs) self year') =
                          returned (get_a_year h' self year'))
         \<and> (\<forall>zs. template_ok (mutate h' r zs) \<and> owns_list (mutate h' r zs) self)"
proof -
  note inv = get_a_year_invariants [OF assms(1,2,4)]
  from assms(3,4) have "new_list h (contents h missing_year) = (r, h')"
    by (simp add: get_a_year_no_data)
  then have "returned (r, h') = contents h missing_year"
    using returned_new_list [of h "contents h missing_year"] by simp
  then have c: "contents h' r = replicate 12 MISSING"
    using assms(1) by (simp add: returned_def template_ok_contents)
  have same: "returned (get_a_year (mutate h' r zs) self year') =
                returned (get_a_year h' self year')" for zs year'
    using inv(4,5) by (intro returned_get_a_year_cong) (simp_all add: contents_mutate)
  have keep: "template_ok (mutate h' r zs) \<and> owns_list (mutate h' r zs) self" for zs
    using inv(1,2,5) by (simp add: template_ok_mutate owns_list_def next_ref_mutate)
  from c inv(4,5) same keep show ?thesis
    by (simp add: MISSING_def)
qed

theorem get_a_year_missing_copy_witness:
  "template_ok (snd (fresh 1900))
   \<and> owns_list (snd (fresh 1900)) (fst (fresh 1900))
   \<and> \<not> has_data_for_year (snd (fresh 1900)) (fst (fresh 1900)) 1902
   \<and> returned (get_a_year (snd (fresh 1900)) (fst (fresh 1900)) 1902) = replicate 12 MISSING
   \<and> returned (get_a_year
                  (mutate (snd (get_a_year (snd (fresh 1900)) (fst (fresh 1900)) 1902))
                          (fst (get_a_year (snd (fresh 1900)) (fst (fresh 1900)) 1902))
                          [0, 1])
                  (fst (fresh 1900)) 1902) =
       returned (get_a_year (snd (get_a_year (snd (fresh 1900)) (fst (fresh 1900)) 1902))
                            (fst (fresh 1900)) 1902)"
proof -
  have t: "template_ok (snd (fresh 1900))"
    by (simp add: template_ok_def run_simps)
  have o: "owns_list (snd (fresh 1900)) (fst (fresh 1900))"
    by (simp add: owns_list_def run_simps)
  have n: "\<not> has_data_for_year (snd (fresh 1900)) (fst (fresh 1900)) 1902"
    by (simp add: has_data_for_year_def run_simps)
  have g: "get_a_year (snd (fresh 1900)) (fst (fresh 1900)) 1902 =
             (fst (get_a_year (snd (fresh 1900)) (fst (fresh 1900)) 1902),
              snd (get_a_year (snd (fresh 1900)) (fst (fresh 1900)) 1902))"
    by simp
  from get_a_year_missing_copy [OF t o n g] t o n show ?thesis
    by (simp add: returned_def)
qed

subsection \<open>A Series without data\<close>

text \<open>
  Without the keyword \<open>series\<close> the list of the new object is the empty list that
  the constructor created: the two calls agree when the list passed is that one.
\<close>

lemma Series_init_series_own: "Series_init_series h fy (next_ref h) k = Series_init h fy k"
  by (simp add: Series_init_series_def Series_init_def new_list_def)

text \<open>
  C10. Right after the constructor, called with a truthy \<open>first_year\<close> and with keywords
  that name no attribute the class uses, and with no \<open>add_year\<close> call yet: the length is
  0, \<open>last_year\<close> is \<open>first_year - 1\<close>, \<open>good_count()\<close> is 0,
  \<open>has_data_for_year(year)\<close> is false for every year, and \<open>get_a_year(year)\<close> returns
  twelve copies of MISSING for every year. The class attribute \<open>missing_year\<close> is intact
  in the store in which the constructor runs.
\<close>

theorem fresh_series_empty:
  assumes "template_ok h" "fy \<noteq> 0" "plain_keywords k" "Series_init h fy k = (self, h')"
  shows "first_year self = fy
         \<and> Series_len h' self = 0
         \<and> last_year h' self = first_year self - 1
         \<and> good_count h' self = 0
         \<and> (\<forall>year. \<not> has_data_for_year h' self year)
         \<and> (\<forall>year. returned (get_a_year h' self year) = replicate 12 MISSING)"
proof -
  note inv = Series_init_invariants [OF assms(1,4)]
  from assms(4) have s: "self = \<lparr>first_year = fy, series = next_ref h, extra = k\<rparr>"
    and h': "h' = snd (new_list h [])"
    by (simp_all add: Series_init_result)
  have e: "contents h' (series self) = []"
    by (simp add: s h' contents_new_list)
  have no: "\<not> has_data_for_year h' self year" for year
    by (simp add: has_data_for_year_def last_year_def e)
  have got: "returned (get_a_year h' self year) = replicate 12 MISSING" for year
    using no [of year] inv(1)
    by (simp add: get_a_year_no_data returned_new_list template_ok_contents)
  show ?thesis
    using no got by (simp add: Series_len_def last_year_def good_count_def e) (simp add: s)
qed

theorem fresh_series_empty_witness:
  "template_ok class_body
   \<and> (1900 :: int) \<noteq> 0
   \<and> plain_keywords Map.empty
   \<and> first_year (fst (fresh 1900)) = 1900
   \<and> Series_len (snd (fresh 1900)) (fst (fresh 1900)) = 0
   \<and> last_year (snd (fresh 1900)) (fst (fresh 1900)) = 1899
   \<and> good_count (snd (fresh 1900)) (fst (fresh 1900)) = 0
   \<and> \<not> has_data_for_year (snd (fresh 1900)) (fst (fresh 1900)) 1900
   \<and> returned (get_a_year (snd (fresh 1900)) (fst (fresh 1900)) 1900) = replicate 12 MISSING"
proof -
  have t: "template_ok class_body"
    by (rule template_ok_class_body)
  have y: "(1900 :: int) \<noteq> 0"
    by simp
  have p: "plain_keywords Map.empty"
    by (simp add: plain_keywords_def)
  have i: "Series_init class_body 1900 Map.empty = (fst (fresh 1900), snd (fresh 1900))"
    by (simp add: fresh_def)
  from fresh_series_empty [OF t y p i] t p show ?thesis
    by simp
qed

text \<open>
  C10 as it was stated, for every freshly constructed Series, fails when the keywords
  reach an attribute the class uses: after \<open>Series(1900, series=[1.0]*12)\<close> the class
  attribute is intact and \<open>first_year\<close> is truthy, yet the length is 12, \<open>last_year\<close> is
  1900, \<open>good_count()\<close> is 12, \<open>has_data_for_year(1900)\<close> holds and \<open>get_a_year(1900)\<close>
  returns the twelve values passed in.
\<close>

theorem fresh_series_empty_counterexample:
  "template_ok (snd (new_list class_body (replicate 12 1)))
   \<and> first_year (fst keyword_series) = 1900
   \<and> first_year (fst keyword_series) \<noteq> 0
   \<and> Series_len (snd keyword_series) (fst keyword_series) = 12
   \<and> Series_len (snd keyword_series) (fst keyword_series) \<noteq> 0
   \<and> last_year (snd keyword_series) (fst keyword_series) \<noteq> first_year (fst keyword_series) - 1
   \<and> good_count (snd keyword_series) (fst keyword_series) = 12
   \<and> has_data_for_year (snd keyword_series) (fst keyword_series) 1900
   \<and> returned (get_a_year (snd keyword_series) (fst keyword_series) 1900) = replicate 12 1
   \<and> returned (get_a_year (snd keyword_series) (fst keyword_series) 1900)
       \<noteq> replicate 12 MISSING"
  by (simp add: template_ok_def keyword_series_def Series_init_series_def new_list_def
      class_body_def missing_year_def Series_len_def last_year_def good_count_def
      has_data_for_year_def get_a_year_def returned_def contents_def py_slice_def
      adjust_index_def MISSING_def count_list_replicate count_list_absent)

end
